theory Spec2Isabelle
  imports Main
begin

section \<open>The RPC server contract of \<open>rpc-server.ts\<close>\<close>

text \<open>
  The file \<open>packages/core/src/common/rpc/rpc-server.ts\<close> has two layers. Its type
  aliases \<open>EnsurePrefix\<close>, \<open>WithoutCancellationToken\<close> and \<open>RpcServer\<close> are
  functions from types to types, evaluated by the TypeScript checker; they are embedded
  here as functions on a syntax of types, with the checker's assignability judgements
  about types declared elsewhere as a parameter. Its runtime part (\<open>kOnSendAll\<close>,
  \<open>kOnSendTo\<close>, \<open>RpcEvent.is\<close>, \<open>RpcContextKey\<close>) is embedded as functions on
  JavaScript values.
\<close>

subsection \<open>Symbols and the global symbol registry\<close>

text \<open>
  A JavaScript symbol is compared by identity: \<open>ident\<close> is that identity, and
  \<open>description\<close> the label it was created with. A \<open>realm\<close> is the state the two
  symbol factories work on: the global registry that \<open>Symbol.for\<close> reads and extends,
  and the supply of identities not used so far.
\<close>

datatype symbol = Symbol (ident: nat) (description: string)

record realm =
  registry :: "(string \<times> symbol) list"
  fresh :: nat

text \<open>\<open>Symbol(description)\<close>: a new symbol on every call, never registered.\<close>

definition Symbol_new :: "string \<Rightarrow> realm \<Rightarrow> symbol \<times> realm" where
  "Symbol_new d r = (Symbol (fresh r) d, r\<lparr>fresh := Suc (fresh r)\<rparr>)"

text \<open>
  \<open>Symbol.for(key)\<close>: the registered symbol of \<open>key\<close> when there is one, otherwise a
  new symbol, which is registered under \<open>key\<close> before it is returned.
\<close>

definition Symbol_for :: "string \<Rightarrow> realm \<Rightarrow> symbol \<times> realm" where
  "Symbol_for k r =
     (case map_of (registry r) k of
        Some s \<Rightarrow> (s, r)
      | None \<Rightarrow>
          (Symbol (fresh r) k,
           r\<lparr>registry := (k, Symbol (fresh r) k) # registry r, fresh := Suc (fresh r)\<rparr>))"

text \<open>What any other code of the process can do to the realm, in any order.\<close>

datatype realm_op = CallSymbol string | CallSymbolFor string

fun realm_step :: "realm_op \<Rightarrow> realm \<Rightarrow> realm" where
  "realm_step (CallSymbol d) r = snd (Symbol_new d r)"
| "realm_step (CallSymbolFor k) r = snd (Symbol_for k r)"

fun realm_run :: "realm_op list \<Rightarrow> realm \<Rightarrow> realm" where
  "realm_run [] r = r"
| "realm_run (c # cs) r = realm_run cs (realm_step c r)"

text \<open>
  A realm is well formed when every registered symbol was drawn from the supply: its
  identity is below \<open>fresh\<close>.
\<close>

definition realm_wf :: "realm \<Rightarrow> bool" where
  "realm_wf r = list_all (\<lambda>(k, s). ident s < fresh r) (registry r)"

definition realm_init :: realm where
  "realm_init = \<lparr>registry = [], fresh = 0\<rparr>"

text \<open>
  The module's two constants, in the order the module evaluates them:
  \<^verbatim>\<open>export const kOnSendAll = Symbol.for('onSendAll');\<close> and
  \<^verbatim>\<open>export const kOnSendTo = Symbol.for('onSendTo');\<close>.
\<close>

record rpc_module =
  kOnSendAll :: symbol
  kOnSendTo :: symbol

definition load_module :: "realm \<Rightarrow> rpc_module \<times> realm" where
  "load_module r =
     (let (a, r1) = Symbol_for ''onSendAll'' r;
          (b, r2) = Symbol_for ''onSendTo'' r1
      in (\<lparr>kOnSendAll = a, kOnSendTo = b\<rparr>, r2))"


subsection \<open>The type-level contract\<close>

text \<open>
  The declared types of an interface's members. \<open>Event\<close>, \<open>CancellationToken\<close> and
  \<open>PromiseLike\<close> are imported by the source and declared elsewhere, and \<open>TNamed\<close> is
  any other named type. A parameter is its type and whether it is optional
  (\<open>x?: T\<close>); the parameter list of a function type has fixed length. Union types,
  \<open>any\<close>, \<open>never\<close>, overloaded signatures and rest parameters are not declared types
  of this fragment.
\<close>

datatype ty =
    TString
  | TNumber
  | TBoolean
  | TVoid
  | TUndefined
  | TUnknown
  | TNamed string
  | TRpcContext
  | TCancellationToken
  | TPromise ty
  | TEvent ty
  | TFun (params: "param list") (returns: ty)
and param = Param (ptype: ty) (poptional: bool)






















subsection \<open>JavaScript values\<close>

text \<open>
  A property key at run time is a string or a symbol. An object carries the
  properties a lookup finds on it, own properties before those of its prototypes, so
  that the first entry for a key is the one a read returns. The members every object
  inherits from \<open>Object.prototype\<close> are left out of the lists: none of them is read
  by this file. A function is an object that can be called; \<open>typeof\<close> tells the two
  apart.
\<close>

datatype key = KString string | KSymbol symbol

datatype jsval =
    JUndefined
  | JNull
  | JBoolean bool
  | JNumber int
  | JString string
  | JSymbol symbol
  | is_JObject: JObject "(key \<times> jsval) list"
  | is_JFunction: JFunction "(key \<times> jsval) list"

datatype js_error = TypeError | MissingContextValue key

text \<open>
  Modelled from the spec: \<open>isObject\<close> and \<open>isFunction\<close> are imported from
  \<open>../types\<close>, which is not part of the sources at hand. The spec asks that \<open>is\<close>
  holds only of objects and fails on \<open>null\<close>; the names give the rest:
  \<open>typeof value === 'object' && value !== null\<close> and
  \<open>typeof value === 'function'\<close>.
\<close>

fun isObject :: "jsval \<Rightarrow> bool" where
  "isObject (JObject ps) = True"
| "isObject _ = False"

fun isFunction :: "jsval \<Rightarrow> bool" where
  "isFunction (JFunction ps) = True"
| "isFunction _ = False"

text \<open>
  The read \<open>value[k]\<close> (and \<open>value.name\<close>): a \<open>TypeError\<close> on \<open>undefined\<close> and
  \<open>null\<close>, \<open>undefined\<close> for a property that is not there. The members of the
  wrappers of primitive values are left out.
\<close>

fun getMember :: "jsval \<Rightarrow> key \<Rightarrow> js_error + jsval" where
  "getMember JUndefined k = Inl TypeError"
| "getMember JNull k = Inl TypeError"
| "getMember (JObject ps) k = Inr (case map_of ps k of None \<Rightarrow> JUndefined | Some v \<Rightarrow> v)"
| "getMember (JFunction ps) k = Inr (case map_of ps k of None \<Rightarrow> JUndefined | Some v \<Rightarrow> v)"
| "getMember _ k = Inr JUndefined"

text \<open>
  \<open>a && b\<close> on booleans: \<open>b\<close> is evaluated only when \<open>a\<close> is true, so an error of
  \<open>b\<close> is raised only then.
\<close>

fun andAlso :: "js_error + bool \<Rightarrow> js_error + bool \<Rightarrow> js_error + bool" where
  "andAlso (Inl e) b = Inl e"
| "andAlso (Inr False) b = Inr False"
| "andAlso (Inr True) b = b"

text \<open>\<open>isFunction(value[k])\<close>.\<close>

definition isFunctionMember :: "jsval \<Rightarrow> key \<Rightarrow> js_error + bool" where
  "isFunctionMember v k =
     (case getMember v k of Inl e \<Rightarrow> Inl e | Inr f \<Rightarrow> Inr (isFunction f))"

text \<open>
  \<^verbatim>\<open>static is(value: unknown): value is RpcEvent<any> {
    return isObject<RpcEvent<any>>(value)
        && isFunction(value[kOnSendAll])
        && isFunction(value[kOnSendTo])
        && isFunction(value.sendAll)
        && isFunction(value.sendTo);
  }\<close>
  The module \<open>M\<close> holds the two symbols the module evaluated when it was loaded.
\<close>

definition RpcEvent_is :: "rpc_module \<Rightarrow> jsval \<Rightarrow> js_error + bool" where
  "RpcEvent_is M v =
     andAlso (Inr (isObject v))
    (andAlso (isFunctionMember v (KSymbol (kOnSendAll M)))
    (andAlso (isFunctionMember v (KSymbol (kOnSendTo M)))
    (andAlso (isFunctionMember v (KString ''sendAll''))
             (isFunctionMember v (KString ''sendTo'')))))"

text \<open>The four members \<open>is\<close> reads.\<close>

definition RpcEvent_members :: "rpc_module \<Rightarrow> key list" where
  "RpcEvent_members M =
     [KSymbol (kOnSendAll M), KSymbol (kOnSendTo M), KString ''sendAll'', KString ''sendTo'']"

text \<open>
  \<^verbatim>\<open>export function RpcContextKey<T>(key: string | symbol): RpcContextKey<T> {
    return key as RpcContextKey<T>;
  }\<close>
  The cast is erased at run time.
\<close>

definition RpcContextKey :: "key \<Rightarrow> key" where
  "RpcContextKey k = k"

subsection \<open>The call context\<close>

text \<open>
  Modelled from the spec: the source declares \<open>RpcContext\<close> as an interface, and the
  class that implements \<open>get\<close> and \<open>require\<close> is not part of the sources at hand.
  The spec gives the context a sender, an optional cancellation signal and a mapping
  from context keys to values that the transport fills before the call; \<open>get\<close> looks
  the key up and returns \<open>undefined\<close> when it is absent, \<open>require\<close> does the same
  lookup and fails with \<open>MissingContextValue\<close>, naming the key, when it is absent.
\<close>

record RpcContext =
  sender :: jsval
  request :: "jsval option"
  metadata :: "(key \<times> jsval) list"

definition get :: "RpcContext \<Rightarrow> key \<Rightarrow> js_error + jsval" where
  "get ctx k = Inr (case map_of (metadata ctx) k of None \<Rightarrow> JUndefined | Some v \<Rightarrow> v)"

definition require :: "RpcContext \<Rightarrow> key \<Rightarrow> js_error + jsval" where
  "require ctx k =
     (case map_of (metadata ctx) k of None \<Rightarrow> Inl (MissingContextValue k) | Some v \<Rightarrow> Inr v)"

subsection \<open>The event broadcast primitive\<close>

text \<open>
  \<open>SendAllEvent\<close> and \<open>SendToEvent\<close> are the payloads of the two channels; their
  field \<open>value\<close> is \<open>sent\<close> here, and the optional \<open>exceptions\<close> is an option.
\<close>

datatype 'a SendAllEvent = SendAllEvent (sent: 'a) (exceptions: "jsval list option")

datatype 'a SendToEvent = SendToEvent (sent: 'a) (targets: "jsval list")

datatype 'a notification = OnSendAll "'a SendAllEvent" | OnSendTo "'a SendToEvent"

text \<open>
  Modelled from the spec: \<open>sendAll\<close> and \<open>sendTo\<close> are abstract in the source, and
  the class that implements them is not part of the sources at hand. The spec gives an
  instance two channels that listeners subscribe to, and makes it the duty of
  \<open>sendAll(event, exceptions)\<close> to raise an \<open>onSendAll\<close> notification carrying
  \<open>{value: event, exceptions}\<close>, and of \<open>sendTo(event, targets)\<close> to raise
  \<open>onSendTo\<close> with \<open>{value: event, targets}\<close>. The state of an instance is the
  listeners of each channel, the notifications raised so far and the listener calls made
  so far, oldest first; a publish operation returns the state at its return.
\<close>

record 'a RpcEventImpl =
  onSendAllListeners :: "nat list"
  onSendToListeners :: "nat list"
  raised :: "'a notification list"
  delivered :: "(nat \<times> 'a notification) list"

definition fire :: "nat list \<Rightarrow> 'a notification \<Rightarrow> 'a RpcEventImpl \<Rightarrow> 'a RpcEventImpl" where
  "fire ls n s =
     s\<lparr>raised := raised s @ [n], delivered := delivered s @ map (\<lambda>l. (l, n)) ls\<rparr>"

definition sendAll :: "'a \<Rightarrow> jsval list option \<Rightarrow> 'a RpcEventImpl \<Rightarrow> 'a RpcEventImpl" where
  "sendAll event exc s = fire (onSendAllListeners s) (OnSendAll (SendAllEvent event exc)) s"

definition sendTo :: "'a \<Rightarrow> jsval list \<Rightarrow> 'a RpcEventImpl \<Rightarrow> 'a RpcEventImpl" where
  "sendTo event tgts s = fire (onSendToListeners s) (OnSendTo (SendToEvent event tgts)) s"


section \<open>Properties of the type-level contract\<close>

subsection \<open>Auxiliary facts\<close>













subsection \<open>Return types\<close>




subsection \<open>Event members\<close>




subsection \<open>Members that are neither functions nor events\<close>




subsection \<open>Function members\<close>




subsection \<open>Parameters\<close>





section \<open>Properties of the runtime part\<close>

subsection \<open>The capability test\<close>

lemma isFunction_iff: "isFunction v = (\<exists>fs. v = JFunction fs)"
  by (cases v) simp_all

lemma isFunctionMember_object:
  "isFunctionMember (JObject ps) k = Inr (\<exists>fs. map_of ps k = Some (JFunction fs))"
  by (simp add: isFunctionMember_def isFunction_iff split: option.splits)

lemma andAlso_Inr: "andAlso (Inr a) (Inr b) = Inr (a \<and> b)"
  by (cases a) simp_all

lemma RpcEvent_is_object:
  "RpcEvent_is M (JObject ps) =
     Inr (\<forall>k \<in> set (RpcEvent_members M). \<exists>fs. map_of ps k = Some (JFunction fs))"
  by (simp add: RpcEvent_is_def RpcEvent_members_def isFunctionMember_object andAlso_Inr)

lemma RpcEvent_is_not_object: "\<not> isObject v \<Longrightarrow> RpcEvent_is M v = Inr False"
  by (simp add: RpcEvent_is_def)

text \<open>
  Claim C6: \<open>RpcEvent.is(x)\<close> never throws, and it returns true exactly when \<open>x\<close> is
  an object whose members \<open>kOnSendAll\<close>, \<open>kOnSendTo\<close>, \<open>sendAll\<close> and \<open>sendTo\<close> are
  all functions. It returns false for \<open>{}\<close>, for \<open>null\<close>, for a function, and for an
  object that lacks one of the four members.
\<close>

theorem RpcEvent_is_iff:
  "RpcEvent_is M x =
     Inr (\<exists>ps. x = JObject ps
            \<and> (\<forall>k \<in> set (RpcEvent_members M). \<exists>fs. map_of ps k = Some (JFunction fs)))
   \<and> RpcEvent_is M (JObject []) = Inr False
   \<and> RpcEvent_is M JNull = Inr False
   \<and> RpcEvent_is M (JFunction fs) = Inr False
   \<and> (k \<in> set (RpcEvent_members M) \<and> map_of ps k = None \<longrightarrow>
        RpcEvent_is M (JObject ps) = Inr False)"
proof -
  have "RpcEvent_is M x =
     Inr (\<exists>ps. x = JObject ps
            \<and> (\<forall>k \<in> set (RpcEvent_members M). \<exists>fs. map_of ps k = Some (JFunction fs)))"
  proof (cases "isObject x")
    case True
    then obtain qs where "x = JObject qs" by (cases x) simp_all
    then show ?thesis by (simp add: RpcEvent_is_object)
  next
    case False
    then have "\<forall>ps. x \<noteq> JObject ps" by auto
    with False show ?thesis by (simp add: RpcEvent_is_not_object)
  qed
  moreover have "RpcEvent_is M (JObject []) = Inr False"
    by (auto simp: RpcEvent_is_object RpcEvent_members_def)
  moreover have "RpcEvent_is M JNull = Inr False" "RpcEvent_is M (JFunction fs) = Inr False"
    by (simp_all add: RpcEvent_is_not_object)
  moreover have "RpcEvent_is M (JObject ps) = Inr False"
    if "k \<in> set (RpcEvent_members M)" "map_of ps k = None"
    using that unfolding RpcEvent_is_object by force
  ultimately show ?thesis by blast
qed

text \<open>
  C6 in the module as a fresh realm loads it, on an object with the four members and
  on one without its \<open>kOnSendTo\<close> channel.
\<close>

theorem RpcEvent_is_iff_witness:
  "RpcEvent_is (fst (load_module realm_init))
     (JObject [(KString ''sendTo'', JFunction []), (KString ''sendAll'', JFunction []),
               (KSymbol (Symbol 1 ''onSendTo''), JFunction []),
               (KSymbol (Symbol 0 ''onSendAll''), JFunction [])]) = Inr True
   \<and> RpcEvent_is (fst (load_module realm_init))
     (JObject [(KString ''sendTo'', JFunction []), (KString ''sendAll'', JFunction []),
               (KSymbol (Symbol 0 ''onSendAll''), JFunction [])]) = Inr False"
proof -
  let ?M = "fst (load_module realm_init)"
  let ?a = "[(KString ''sendTo'', JFunction []), (KString ''sendAll'', JFunction []),
               (KSymbol (Symbol 1 ''onSendTo''), JFunction []),
               (KSymbol (Symbol 0 ''onSendAll''), JFunction [])]"
  let ?b = "[(KString ''sendTo'', JFunction []), (KString ''sendAll'', JFunction []),
               (KSymbol (Symbol 0 ''onSendAll''), JFunction [])]"
  have M: "RpcEvent_members ?M =
     [KSymbol (Symbol 0 ''onSendAll''), KSymbol (Symbol 1 ''onSendTo''),
      KString ''sendAll'', KString ''sendTo'']"
    by (simp add: RpcEvent_members_def load_module_def Symbol_for_def realm_init_def)
  have "(\<exists>ps. JObject ?a = JObject ps
            \<and> (\<forall>k \<in> set (RpcEvent_members ?M). \<exists>fs. map_of ps k = Some (JFunction fs)))"
    unfolding M by simp
  with RpcEvent_is_iff [of ?M "JObject ?a"] have a: "RpcEvent_is ?M (JObject ?a) = Inr True"
    by simp
  have "KSymbol (Symbol 1 ''onSendTo'') \<in> set (RpcEvent_members ?M)
      \<and> map_of ?b (KSymbol (Symbol 1 ''onSendTo'')) = None"
    unfolding M by simp
  with RpcEvent_is_iff [of ?M JNull "[]" "KSymbol (Symbol 1 ''onSendTo'')" ?b]
  have "RpcEvent_is ?M (JObject ?b) = Inr False" by blast
  with a show ?thesis by blast
qed

subsection \<open>Context values\<close>

text \<open>
  Claim C7: \<open>get(k)\<close> never throws, and when no value was populated for \<open>k\<close> it
  returns \<open>undefined\<close> while \<open>require(k)\<close> fails with the \<open>MissingContextValue\<close>
  error that names \<open>k\<close>.
\<close>

theorem get_require_absent:
  "(\<exists>v. get ctx k = Inr v)
   \<and> (k \<notin> fst ` set (metadata ctx) \<longrightarrow>
        get ctx k = Inr JUndefined \<and> require ctx k = Inl (MissingContextValue k))"
  by (simp add: get_def require_def map_of_eq_None_iff [symmetric] del: map_of_eq_None_iff)

text \<open>C7 on a context that holds a value for \<open>connection\<close> and none for \<open>window\<close>.\<close>

theorem get_require_absent_witness:
  "get \<lparr>sender = JString ''peer'', request = None,
        metadata = [(KString ''connection'', JNumber 7)]\<rparr> (RpcContextKey (KString ''window''))
     = Inr JUndefined
   \<and> require \<lparr>sender = JString ''peer'', request = None,
        metadata = [(KString ''connection'', JNumber 7)]\<rparr> (RpcContextKey (KString ''window''))
     = Inl (MissingContextValue (KString ''window''))"
proof -
  let ?ctx = "\<lparr>sender = JString ''peer'', request = None,
        metadata = [(KString ''connection'', JNumber 7)]\<rparr>"
  have "KString ''window'' \<notin> fst ` set (metadata ?ctx)" by simp
  with get_require_absent [of ?ctx "KString ''window''"] show ?thesis
    unfolding RpcContextKey_def by blast
qed

subsection \<open>Publishing\<close>

text \<open>
  Claim C8: when \<open>sendAll(event, exceptions)\<close> returns, exactly one notification has
  been raised since the call, the \<open>onSendAll\<close> notification carrying the event and the
  exceptions, and it has been handed to each listener of that channel; likewise
  \<open>sendTo(event, targets)\<close> has raised exactly the one \<open>onSendTo\<close> notification
  carrying the event and the targets.
\<close>

theorem send_raises_once:
  "raised (sendAll e x s) = raised s @ [OnSendAll (SendAllEvent e x)]
   \<and> delivered (sendAll e x s)
       = delivered s @ map (\<lambda>l. (l, OnSendAll (SendAllEvent e x))) (onSendAllListeners s)
   \<and> raised (sendTo e t s) = raised s @ [OnSendTo (SendToEvent e t)]
   \<and> delivered (sendTo e t s)
       = delivered s @ map (\<lambda>l. (l, OnSendTo (SendToEvent e t))) (onSendToListeners s)"
  by (simp add: sendAll_def sendTo_def fire_def)

text \<open>
  C8 on an instance with the listeners 1 and 2 on \<open>onSendAll\<close> and 3 on
  \<open>onSendTo\<close>: one \<open>sendTo\<close> to the peers \<open>p1\<close> and \<open>p2\<close> raises the one
  notification with these targets and calls listener 3 once.
\<close>

theorem send_raises_once_witness:
  "raised (sendTo (JString ''changed'') [JString ''p1'', JString ''p2'']
       \<lparr>onSendAllListeners = [1, 2], onSendToListeners = [3], raised = [], delivered = []\<rparr>)
     = [OnSendTo (SendToEvent (JString ''changed'') [JString ''p1'', JString ''p2''])]
   \<and> delivered (sendTo (JString ''changed'') [JString ''p1'', JString ''p2'']
       \<lparr>onSendAllListeners = [1, 2], onSendToListeners = [3], raised = [], delivered = []\<rparr>)
     = [(3, OnSendTo (SendToEvent (JString ''changed'') [JString ''p1'', JString ''p2'']))]"
  using send_raises_once [of "JString ''changed''" None
      "\<lparr>onSendAllListeners = [1, 2], onSendToListeners = [3], raised = [], delivered = []\<rparr>"
      "[JString ''p1'', JString ''p2'']"]
  by simp

subsection \<open>Context keys\<close>

text \<open>
  Claim C9: \<open>RpcContextKey(identifier)\<close> is the identifier itself, with nothing added
  to it, so two keys are equal exactly when their identifiers are: two strings when they
  are the same string, two symbols when they are the same symbol. The function neither
  reads nor changes any state.
\<close>

theorem RpcContextKey_identity:
  "RpcContextKey k = k
   \<and> (RpcContextKey a = RpcContextKey b) = (a = b)
   \<and> (RpcContextKey (KString s) = RpcContextKey (KString t)) = (s = t)
   \<and> (RpcContextKey (KSymbol y) = RpcContextKey (KSymbol z)) = (y = z)"
  by (simp add: RpcContextKey_def)


subsection \<open>The channel keys\<close>

lemma Symbol_for_registered:
  "map_of (registry r) k = Some s \<Longrightarrow> Symbol_for k r = (s, r)"
  by (simp add: Symbol_for_def)

lemma Symbol_for_registers:
  "map_of (registry (snd (Symbol_for k r))) k = Some (fst (Symbol_for k r))"
  by (simp add: Symbol_for_def split: option.splits)

lemma realm_step_keeps:
  "map_of (registry r) k = Some s \<Longrightarrow> map_of (registry (realm_step c r)) k = Some s"
  by (cases c) (auto simp: Symbol_new_def Symbol_for_def split: option.splits)

lemma realm_run_keeps:
  "map_of (registry r) k = Some s \<Longrightarrow> map_of (registry (realm_run cs r)) k = Some s"
  by (induction cs arbitrary: r) (simp_all add: realm_step_keeps)

lemma load_module_registers:
  assumes "load_module r = (M, r')"
  shows "map_of (registry r') ''onSendAll'' = Some (kOnSendAll M)"
    and "map_of (registry r') ''onSendTo'' = Some (kOnSendTo M)"
  using assms
  by (auto simp: load_module_def Symbol_for_def split: option.splits prod.splits)

lemma load_module_reads:
  assumes "load_module r = (M, r')"
  shows "map_of (registry r) ''onSendAll'' = Some s \<Longrightarrow> kOnSendAll M = s"
    and "map_of (registry r) ''onSendTo'' = Some s \<Longrightarrow> kOnSendTo M = s"
  using assms
  by (auto simp: load_module_def Symbol_for_def split: option.splits prod.splits)

lemma realm_step_wf: "realm_wf r \<Longrightarrow> realm_wf (realm_step c r)"
  by (cases c)
     (auto simp: realm_wf_def Symbol_new_def Symbol_for_def list_all_iff
           split: option.splits intro: less_SucI)

lemma realm_run_wf: "realm_wf r \<Longrightarrow> realm_wf (realm_run cs r)"
  by (induction cs arbitrary: r) (simp_all add: realm_step_wf)

lemma Symbol_for_wf: "realm_wf r \<Longrightarrow> realm_wf (snd (Symbol_for k r))"
  using realm_step_wf [of r "CallSymbolFor k"] by simp

lemma load_module_wf:
  assumes "realm_wf r" "load_module r = (M, r')"
  shows "realm_wf r'"
proof -
  obtain a r1 where a: "Symbol_for ''onSendAll'' r = (a, r1)"
    by (cases "Symbol_for ''onSendAll'' r")
  obtain b r2 where b: "Symbol_for ''onSendTo'' r1 = (b, r2)"
    by (cases "Symbol_for ''onSendTo'' r1")
  from a Symbol_for_wf [OF assms(1), of "''onSendAll''"] have "realm_wf r1" by simp
  with b Symbol_for_wf [of r1 "''onSendTo''"] have "realm_wf r2" by simp
  moreover from assms(2) a b have "r' = r2" by (simp add: load_module_def)
  ultimately show ?thesis by simp
qed

lemma registered_below_fresh:
  "realm_wf r \<Longrightarrow> map_of (registry r) k = Some s \<Longrightarrow> ident s < fresh r"
  by (auto simp: realm_wf_def list_all_iff dest: map_of_SomeD)

lemma realm_init_wf: "realm_wf realm_init"
  by (simp add: realm_wf_def realm_init_def)

text \<open>
  Claim C10: the module takes \<open>kOnSendAll\<close> and \<open>kOnSendTo\<close> from the global
  registry. If independent code evaluated \<open>Symbol.for('onSendAll')\<close> at any time before
  the module was loaded, whatever calls of \<open>Symbol\<close> and \<open>Symbol.for\<close> came in
  between, the module's \<open>kOnSendAll\<close> is the symbol that code received, and likewise
  for \<open>kOnSendTo\<close>. Whatever calls are made after the load,
  \<open>Symbol.for('onSendAll')\<close> and \<open>Symbol.for('onSendTo')\<close> return the module's two
  keys. So any code can name the two channels. A symbol made by
  \<open>Symbol(description)\<close> after the load in a well-formed realm, in contrast, is neither
  of them, whatever its description.
\<close>

theorem channel_keys_registered:
  assumes "load_module r = (M, r')"
  shows "(\<forall>r0 cs0. r = realm_run cs0 (snd (Symbol_for ''onSendAll'' r0)) \<longrightarrow>
            kOnSendAll M = fst (Symbol_for ''onSendAll'' r0))
       \<and> (\<forall>r0 cs0. r = realm_run cs0 (snd (Symbol_for ''onSendTo'' r0)) \<longrightarrow>
            kOnSendTo M = fst (Symbol_for ''onSendTo'' r0))
       \<and> fst (Symbol_for ''onSendAll'' (realm_run cs r')) = kOnSendAll M
       \<and> fst (Symbol_for ''onSendTo'' (realm_run cs r')) = kOnSendTo M
       \<and> (realm_wf r \<longrightarrow> fst (Symbol_new d (realm_run cs r')) \<noteq> kOnSendAll M
                       \<and> fst (Symbol_new d (realm_run cs r')) \<noteq> kOnSendTo M)"
proof -
  let ?r = "realm_run cs r'"
  have before_all: "kOnSendAll M = fst (Symbol_for ''onSendAll'' r0)"
    if "r = realm_run cs0 (snd (Symbol_for ''onSendAll'' r0))" for r0 cs0
  proof -
    have "map_of (registry r) ''onSendAll'' = Some (fst (Symbol_for ''onSendAll'' r0))"
      unfolding that using Symbol_for_registers by (rule realm_run_keeps)
    then show ?thesis by (rule load_module_reads(1) [OF assms])
  qed
  have before_to: "kOnSendTo M = fst (Symbol_for ''onSendTo'' r0)"
    if "r = realm_run cs0 (snd (Symbol_for ''onSendTo'' r0))" for r0 cs0
  proof -
    have "map_of (registry r) ''onSendTo'' = Some (fst (Symbol_for ''onSendTo'' r0))"
      unfolding that using Symbol_for_registers by (rule realm_run_keeps)
    then show ?thesis by (rule load_module_reads(2) [OF assms])
  qed
  have a: "map_of (registry ?r) ''onSendAll'' = Some (kOnSendAll M)"
    using load_module_registers(1) [OF assms] by (rule realm_run_keeps)
  have b: "map_of (registry ?r) ''onSendTo'' = Some (kOnSendTo M)"
    using load_module_registers(2) [OF assms] by (rule realm_run_keeps)
  have c: "fst (Symbol_new d ?r) \<noteq> kOnSendAll M \<and> fst (Symbol_new d ?r) \<noteq> kOnSendTo M"
    if wf: "realm_wf r"
  proof -
    have "realm_wf ?r" using load_module_wf [OF wf assms] by (rule realm_run_wf)
    then have "ident (kOnSendAll M) < fresh ?r" "ident (kOnSendTo M) < fresh ?r"
      using a b by (auto dest: registered_below_fresh)
    moreover have "ident (fst (Symbol_new d ?r)) = fresh ?r"
      by (simp add: Symbol_new_def)
    ultimately show ?thesis by auto
  qed
  have "fst (Symbol_for ''onSendAll'' ?r) = kOnSendAll M"
    "fst (Symbol_for ''onSendTo'' ?r) = kOnSendTo M"
    using a b by (simp_all add: Symbol_for_registered)
  with before_all before_to c show ?thesis by blast
qed

text \<open>
  C10 in a realm in which other code has evaluated \<open>Symbol.for('onSendTo')\<close>,
  \<open>Symbol.for('onSendAll')\<close> and \<open>Symbol('onSendAll')\<close>, in this order, before the
  module is loaded: the module's \<open>kOnSendAll\<close> is the symbol that code received, the
  second of the realm. After the load other code makes one more symbol described
  \<open>onSendAll\<close> and registers \<open>other\<close>; \<open>Symbol.for('onSendAll')\<close> is still the
  module's key, and one more \<open>Symbol('onSendAll')\<close> is not.
\<close>

theorem channel_keys_registered_witness:
  "kOnSendAll (fst (load_module
       (realm_run [CallSymbolFor ''onSendTo'', CallSymbolFor ''onSendAll'',
                   CallSymbol ''onSendAll''] realm_init)))
     = fst (Symbol_for ''onSendAll'' (realm_run [CallSymbolFor ''onSendTo''] realm_init))
   \<and> fst (Symbol_for ''onSendAll'' (realm_run [CallSymbolFor ''onSendTo''] realm_init))
     = Symbol 1 ''onSendAll''
   \<and> fst (Symbol_for ''onSendAll''
         (realm_run [CallSymbol ''onSendAll'', CallSymbolFor ''other'']
            (snd (load_module
              (realm_run [CallSymbolFor ''onSendTo'', CallSymbolFor ''onSendAll'',
                          CallSymbol ''onSendAll''] realm_init)))))
     = kOnSendAll (fst (load_module
         (realm_run [CallSymbolFor ''onSendTo'', CallSymbolFor ''onSendAll'',
                     CallSymbol ''onSendAll''] realm_init)))
   \<and> fst (Symbol_new ''onSendAll''
         (realm_run [CallSymbol ''onSendAll'', CallSymbolFor ''other'']
            (snd (load_module
              (realm_run [CallSymbolFor ''onSendTo'', CallSymbolFor ''onSendAll'',
                          CallSymbol ''onSendAll''] realm_init)))))
     \<noteq> kOnSendAll (fst (load_module
         (realm_run [CallSymbolFor ''onSendTo'', CallSymbolFor ''onSendAll'',
                     CallSymbol ''onSendAll''] realm_init)))"
proof -
  let ?before = "realm_run [CallSymbolFor ''onSendTo''] realm_init"
  let ?r = "realm_run [CallSymbolFor ''onSendTo'', CallSymbolFor ''onSendAll'',
                       CallSymbol ''onSendAll''] realm_init"
  have l: "load_module ?r = (fst (load_module ?r), snd (load_module ?r))" by simp
  have pre: "?r = realm_run [CallSymbol ''onSendAll''] (snd (Symbol_for ''onSendAll'' ?before))"
    by simp
  have wf: "realm_wf ?r" using realm_init_wf by (rule realm_run_wf)
  have v: "fst (Symbol_for ''onSendAll'' ?before) = Symbol 1 ''onSendAll''"
    by (simp add: Symbol_for_def realm_init_def)
  from channel_keys_registered [OF l, of "[CallSymbol ''onSendAll'', CallSymbolFor ''other'']"
      "''onSendAll''"] pre wf v
  show ?thesis by blast
qed


end
